theory Spec2Isabelle
  imports Complex_Main "HOL-Library.Multiset"
begin

section \<open>Conventions of the embedding\<close>

text \<open>
  The scripts under \<open>.github/scripts\<close> are embedded shallowly.

  \<^item> A Python \<open>float\<close> is a \<open>real\<close>: the measurements are taken to be finite and the
    arithmetic exact. Comparisons with the thresholds are exact in Python too.
  \<^item> A \<open>datetime\<close> is an \<open>int\<close>, the number of microseconds since
    \<open>0001-01-01T00:00:00\<close> (\<open>datetime.min\<close>). The store keeps \<open>isoformat()\<close> texts
    and compares them as texts; on texts written by \<open>isoformat()\<close> that order is the
    order of the datetimes, so the comparisons of the queries are comparisons of ints.
  \<^item> A raised exception is \<open>Inl\<close> of an \<open>error\<close>; a normal return is \<open>Inr\<close>.
  \<^item> The SQLite file is a record of its two tables, each a list of rows in insertion
    order. The columns \<open>id\<close> and \<open>created_at\<close> of \<open>performance_metrics\<close> are never read
    by the scripts and are left out.
  \<^item> A parsed JSON document is a value of \<open>json\<close>; an object keeps its keys in order.
\<close>

datatype error = ZeroDivisionError | StatisticsError | OverflowError | ValueError | TypeError

datatype json =
    JNull
  | JBool bool
  | JNum real
  | JStr string
  | JArr "json list"
  | JObj "(string \<times> json) list"

text \<open>Python's truth value of a parsed JSON value (\<open>if x:\<close>).\<close>

fun truthy :: "json \<Rightarrow> bool" where
  "truthy JNull = False"
| "truthy (JBool b) = b"
| "truthy (JNum x) = (x \<noteq> 0)"
| "truthy (JStr s) = (s \<noteq> [])"
| "truthy (JArr xs) = (xs \<noteq> [])"
| "truthy (JObj kvs) = (kvs \<noteq> [])"

section \<open>Dates\<close>

type_synonym datetime = int

definition us_per_day :: int where
  "us_per_day = 86400000000"

text \<open>\<open>datetime.max\<close> is \<open>9999-12-31T23:59:59.999999\<close>, day 3652059 of the calendar.\<close>

definition datetime_max :: datetime where
  "datetime_max = 3652059 * us_per_day - 1"

text \<open>
  \<open>now - timedelta(days=d)\<close>: \<open>timedelta\<close> refuses more than 999999999 days, and the
  subtraction refuses a result outside \<open>datetime.min .. datetime.max\<close>; both raise
  \<open>OverflowError\<close>.
\<close>

definition datetime_minus_days :: "datetime \<Rightarrow> int \<Rightarrow> error + datetime" where
  "datetime_minus_days now d =
     (if \<bar>d\<bar> > 999999999 then Inl OverflowError
      else let t = now - d * us_per_day
           in if t < 0 \<or> datetime_max < t then Inl OverflowError else Inr t)"

section \<open>performance\_regression\_detector.py: the data model\<close>

datatype RegressionSeverity = NONE | MINOR | MODERATE | MAJOR | CRITICAL

text \<open>The \<open>.value\<close> of each member of the enumeration.\<close>

fun severity_value :: "RegressionSeverity \<Rightarrow> string" where
  "severity_value NONE = ''none''"
| "severity_value MINOR = ''minor''"
| "severity_value MODERATE = ''moderate''"
| "severity_value MAJOR = ''major''"
| "severity_value CRITICAL = ''critical''"

record PerformanceMetric =
  benchmark_name :: string
  platform :: string
  execution_time_ns :: real
  memory_usage :: real
  quality_score :: real
  timestamp :: datetime
  commit_hash :: string
  branch :: string
  pr_number :: "int option"
  environment_info :: "json option"

record RegressionAlert =
  alert_benchmark_name :: string
  alert_platform :: string
  severity :: RegressionSeverity
  current_value :: real
  baseline_value :: real
  change_percent :: real
  alert_timestamp :: datetime
  alert_commit_hash :: string
  statistical_significance :: real
  recommendation :: string

text \<open>
  A row of \<open>regression_alerts\<close>: the alert, the \<open>resolved\<close> flag (default \<open>FALSE\<close>) and
  \<open>created_at\<close>, which the store fills in at insertion (\<open>DEFAULT CURRENT_TIMESTAMP\<close>).
  \<open>created_at\<close> is a datetime of the model like every other; that SQLite writes it in
  a text format of its own, different from \<open>isoformat()\<close>, is not modelled.
\<close>

record alert_row =
  row_alert :: RegressionAlert
  resolved :: bool
  created_at :: datetime

record database =
  performance_metrics :: "PerformanceMetric list"
  regression_alerts :: "alert_row list"

section \<open>PerformanceDatabase\<close>

text \<open>
  \<open>store_metrics\<close> inserts one row per metric, in order. \<open>environment_info\<close> is written
  as \<open>json.dumps(..)\<close> when it is truthy and as \<open>NULL\<close> otherwise; a query reads it back
  with \<open>json.loads\<close>, so a falsy value comes back as \<open>None\<close>. \<open>stored_metric\<close> is the
  metric a later query rebuilds from the inserted row.
\<close>

definition stored_metric :: "PerformanceMetric \<Rightarrow> PerformanceMetric" where
  "stored_metric m =
     m\<lparr>environment_info :=
         (case environment_info m of
            None \<Rightarrow> None
          | Some j \<Rightarrow> if truthy j then Some j else None)\<rparr>"

definition store_metrics :: "database \<Rightarrow> PerformanceMetric list \<Rightarrow> database" where
  "store_metrics db metrics =
     db\<lparr>performance_metrics := performance_metrics db @ map stored_metric metrics\<rparr>"

text \<open>\<open>store_alert\<close>; \<open>clock\<close> is the store's \<open>CURRENT_TIMESTAMP\<close> at the insertion.\<close>

definition store_alert :: "database \<Rightarrow> datetime \<Rightarrow> RegressionAlert \<Rightarrow> database" where
  "store_alert db clock a =
     db\<lparr>regression_alerts :=
          regression_alerts db @ [\<lparr>row_alert = a, resolved = False, created_at = clock\<rparr>]\<rparr>"

text \<open>
  The \<open>WHERE\<close> clause of \<open>get_baseline_metrics\<close>:
  \<open>benchmark_name = ? AND platform = ? AND timestamp > ? AND branch = 'main'\<close>.
\<close>

definition baseline_where :: "string \<Rightarrow> string \<Rightarrow> datetime \<Rightarrow> PerformanceMetric \<Rightarrow> bool" where
  "baseline_where name plat cutoff_date m \<longleftrightarrow>
     benchmark_name m = name \<and> platform m = plat \<and> timestamp m > cutoff_date \<and> branch m = ''main''"

text \<open>
  \<open>ORDER BY timestamp DESC\<close>. SQL leaves the order of rows with equal timestamps open;
  the model takes the reverse of a stable ascending sort.
\<close>

definition order_by_timestamp_desc :: "PerformanceMetric list \<Rightarrow> PerformanceMetric list" where
  "order_by_timestamp_desc rows = rev (sort_key timestamp rows)"

text \<open>\<open>get_baseline_metrics\<close>; \<open>now\<close> is the reading of \<open>datetime.now()\<close>.\<close>

definition get_baseline_metrics ::
  "database \<Rightarrow> datetime \<Rightarrow> string \<Rightarrow> string \<Rightarrow> int \<Rightarrow> error + PerformanceMetric list" where
  "get_baseline_metrics db now name plat days_back =
     (case datetime_minus_days now days_back of
        Inl e \<Rightarrow> Inl e
      | Inr cutoff_date \<Rightarrow>
          Inr (order_by_timestamp_desc
                 (filter (baseline_where name plat cutoff_date) (performance_metrics db))))"

section \<open>RegressionDetector\<close>

text \<open>The attributes set by \<open>__init__\<close>.\<close>

fun thresholds :: "RegressionSeverity \<Rightarrow> real" where
  "thresholds MINOR = 5.0"
| "thresholds MODERATE = 15.0"
| "thresholds MAJOR = 25.0"
| "thresholds CRITICAL = 50.0"

definition min_sample_size :: nat where
  "min_sample_size = 5"

definition calculate_severity :: "real \<Rightarrow> RegressionSeverity" where
  "calculate_severity change =
     (let abs_change = \<bar>change\<bar>
      in if change \<le> 0 then NONE
         else if abs_change \<ge> thresholds CRITICAL then CRITICAL
         else if abs_change \<ge> thresholds MAJOR then MAJOR
         else if abs_change \<ge> thresholds MODERATE then MODERATE
         else if abs_change \<ge> thresholds MINOR then MINOR
         else NONE)"

text \<open>\<open>statistics.mean\<close> and \<open>statistics.stdev\<close> (the sample standard deviation).\<close>

definition mean :: "real list \<Rightarrow> error + real" where
  "mean xs = (if xs = [] then Inl StatisticsError else Inr (sum_list xs / real (length xs)))"

definition stdev :: "real list \<Rightarrow> error + real" where
  "stdev xs =
     (if length xs < 2 then Inl StatisticsError
      else let mu = sum_list xs / real (length xs)
           in Inr (sqrt (sum_list (map (\<lambda>x. (x - mu)\<^sup>2) xs) / real (length xs - 1))))"

text \<open>
  \<open>_generate_recommendation\<close>. Texts are byte strings here: \<open>lower()\<close> is modelled on
  ASCII letters, and the separator \<open>" \<bullet> "\<close> is the UTF-8 encoding of the bullet between
  two spaces.
\<close>

definition lower_char :: "char \<Rightarrow> char" where
  "lower_char c =
     (let n = (of_char c :: nat) in if 65 \<le> n \<and> n \<le> 90 then char_of (n + 32) else c)"

definition lower :: "string \<Rightarrow> string" where
  "lower s = map lower_char s"

fun starts_with :: "string \<Rightarrow> string \<Rightarrow> bool" where
  "starts_with s [] = True"
| "starts_with [] (p # ps) = False"
| "starts_with (c # cs) (p # ps) = (c = p \<and> starts_with cs ps)"

text \<open>\<open>contains sub s\<close> is Python's \<open>sub in s\<close>.\<close>

fun contains :: "string \<Rightarrow> string \<Rightarrow> bool" where
  "contains sub [] = (sub = [])"
| "contains sub (c # cs) = (starts_with (c # cs) sub \<or> contains sub cs)"

fun str_join :: "string \<Rightarrow> string list \<Rightarrow> string" where
  "str_join sep [] = []"
| "str_join sep [x] = x"
| "str_join sep (x # y # ys) = x @ sep @ str_join sep (y # ys)"

definition bullet_sep :: string where
  "bullet_sep = [CHR '' '', char_of (226 :: nat), char_of (128 :: nat), char_of (162 :: nat), CHR '' '']"

fun base_recommendations :: "RegressionSeverity \<Rightarrow> string list option" where
  "base_recommendations MINOR = Some
     [''Monitor this benchmark in upcoming commits'',
      ''Consider profiling if regression persists'',
      ''Review recent algorithmic changes'']"
| "base_recommendations MODERATE = Some
     [''Investigate recent code changes affecting this benchmark'',
      ''Run detailed profiling to identify bottlenecks'',
      ''Consider reverting recent performance-affecting commits'']"
| "base_recommendations MAJOR = Some
     [''Immediate investigation required'',
      ''Profile the specific code paths in this benchmark'',
      ''Consider blocking deployment until resolved'']"
| "base_recommendations CRITICAL = Some
     [''Critical performance degradation detected'',
      ''Block deployment immediately'',
      ''Emergency profiling and optimization required'']"
| "base_recommendations NONE = None"

definition generate_recommendation :: "RegressionSeverity \<Rightarrow> real \<Rightarrow> string \<Rightarrow> string" where
  "generate_recommendation sev change name =
     (let recommendations =
            (case base_recommendations sev of
               Some r \<Rightarrow> r
             | None \<Rightarrow> [''No specific recommendation'']);
          recommendations' =
            (if contains ''synthesis'' (lower name) then
               recommendations @
                 [''Check WORLD vocoder parameter settings'',
                  ''Verify HMM model loading performance'']
             else if contains ''training'' (lower name) then
               recommendations @
                 [''Review training data preprocessing pipeline'',
                  ''Check memory allocation patterns in ML operations'']
             else recommendations)
      in str_join bullet_sep recommendations')"

text \<open>
  \<open>_analyze_single_metric\<close>. \<open>ttest\<close> stands for the p-value of
  \<open>scipy.stats.ttest_1samp\<close>, a library function outside the repository; \<open>now\<close> is the
  clock reading inside \<open>get_baseline_metrics\<close>, called with its default of 30 days.
  Python's float division raises \<open>ZeroDivisionError\<close> on a zero divisor.
\<close>

definition analyze_single_metric ::
  "(real list \<Rightarrow> real \<Rightarrow> real) \<Rightarrow> database \<Rightarrow> datetime \<Rightarrow> PerformanceMetric \<Rightarrow> string
     \<Rightarrow> error + RegressionAlert option" where
  "analyze_single_metric ttest db now current_metric commit =
     (case get_baseline_metrics db now (benchmark_name current_metric) (platform current_metric) 30 of
        Inl e \<Rightarrow> Inl e
      | Inr baseline_metrics \<Rightarrow>
          if length baseline_metrics < min_sample_size then Inr None
          else
            let baseline_times = map execution_time_ns baseline_metrics;
                current_time = execution_time_ns current_metric
            in (case mean baseline_times of
                 Inl e \<Rightarrow> Inl e
               | Inr baseline_mean \<Rightarrow>
                   (case (if length baseline_times > 1 then stdev baseline_times else Inr 0) of
                      Inl e \<Rightarrow> Inl e
                    | Inr baseline_std \<Rightarrow>
                        if baseline_mean = 0 then Inl ZeroDivisionError
                        else
                          let change = ((current_time - baseline_mean) / baseline_mean) * 100;
                              sev = calculate_severity change
                          in if sev = NONE then Inr None
                             else
                               let significance =
                                     (if baseline_std > 0 then ttest baseline_times current_time
                                      else 1.0);
                                   advice =
                                     generate_recommendation sev change
                                       (benchmark_name current_metric)
                               in Inr (Some
                                    \<lparr>alert_benchmark_name = benchmark_name current_metric,
                                     alert_platform = platform current_metric,
                                     severity = sev,
                                     current_value = current_time,
                                     baseline_value = baseline_mean,
                                     change_percent = change,
                                     alert_timestamp = timestamp current_metric,
                                     alert_commit_hash = commit,
                                     statistical_significance = significance,
                                     recommendation = advice\<rparr>))))"

text \<open>
  \<open>analyze_current_metrics\<close>: the loop over the batch, with the database and the list of
  alerts as the state. An exception of \<open>_analyze_single_metric\<close> is not caught: it ends
  the loop, and the alerts stored so far stay in the database. The run is short, so one
  reading \<open>now\<close> of the clock and one reading \<open>clock\<close> of the store's serve the whole loop.
\<close>

fun analyze_loop ::
  "(real list \<Rightarrow> real \<Rightarrow> real) \<Rightarrow> datetime \<Rightarrow> datetime \<Rightarrow> string
     \<Rightarrow> database \<Rightarrow> RegressionAlert list \<Rightarrow> PerformanceMetric list
     \<Rightarrow> database \<times> (error + RegressionAlert list)" where
  "analyze_loop ttest now clock commit db alerts [] = (db, Inr alerts)"
| "analyze_loop ttest now clock commit db alerts (metric # rest) =
     (case analyze_single_metric ttest db now metric commit of
        Inl e \<Rightarrow> (db, Inl e)
      | Inr None \<Rightarrow> analyze_loop ttest now clock commit db alerts rest
      | Inr (Some alert) \<Rightarrow>
          if severity alert \<noteq> NONE
          then analyze_loop ttest now clock commit (store_alert db clock alert) (alerts @ [alert]) rest
          else analyze_loop ttest now clock commit db alerts rest)"

definition analyze_current_metrics ::
  "(real list \<Rightarrow> real \<Rightarrow> real) \<Rightarrow> database \<Rightarrow> datetime \<Rightarrow> datetime \<Rightarrow> PerformanceMetric list
     \<Rightarrow> string \<Rightarrow> database \<times> (error + RegressionAlert list)" where
  "analyze_current_metrics ttest db now clock current_metrics commit =
     analyze_loop ttest now clock commit db [] current_metrics"

text \<open>
  The part of \<open>main\<close> between loading and reporting: an empty batch ends the run, any
  other batch is stored first and analysed afterwards, against the database that
  already holds it.
\<close>

definition detector_main ::
  "(real list \<Rightarrow> real \<Rightarrow> real) \<Rightarrow> database \<Rightarrow> datetime \<Rightarrow> datetime \<Rightarrow> PerformanceMetric list
     \<Rightarrow> string \<Rightarrow> database \<times> (error + RegressionAlert list)" where
  "detector_main ttest db now clock current_metrics commit =
     (if current_metrics = [] then (db, Inr [])
      else analyze_current_metrics ttest (store_metrics db current_metrics) now clock
             current_metrics commit)"

section \<open>load\_benchmark\_results\<close>

text \<open>
  One object of a benchmark file, read with \<open>benchmark.get(key, default)\<close>. The model
  covers files whose fields have the types the benchmark writer gives them: the name is
  a text, \<open>benchmark_successful\<close> a boolean, the three measurements numbers. A field
  that is absent is \<open>None\<close>.
\<close>

record benchmark_result =
  r_benchmark_name :: "string option"
  r_benchmark_successful :: "bool option"
  r_avg_execution_time_ns :: "real option"
  r_avg_memory_usage :: "real option"
  r_formant_preservation_score :: "real option"
  r_environment_info :: "json option"

definition get_default :: "'a option \<Rightarrow> 'a \<Rightarrow> 'a" where
  "get_default field d = (case field of None \<Rightarrow> d | Some v \<Rightarrow> v)"

definition platform_of_path :: "string \<Rightarrow> string" where
  "platform_of_path path_str =
     (if contains ''Windows'' path_str \<or> contains ''windows'' path_str then ''Windows x64''
      else if contains ''Ubuntu'' path_str \<and> contains ''GCC'' path_str then ''Ubuntu GCC''
      else if contains ''Ubuntu'' path_str \<and> contains ''Clang'' path_str then ''Ubuntu Clang''
      else if contains ''macOS'' path_str then ''macOS''
      else ''Unknown Platform'')"

text \<open>
  The body of the loop over \<open>benchmark_list\<close> of one file. \<open>commit\<close>, \<open>branch_name\<close> and
  \<open>pr\<close> are what the environment variables give; each object comes with the reading of
  \<open>datetime.now()\<close> taken when it is converted.
\<close>

fun load_benchmark_list ::
  "string \<Rightarrow> string \<Rightarrow> string \<Rightarrow> int option \<Rightarrow> (datetime \<times> benchmark_result) list
     \<Rightarrow> PerformanceMetric list" where
  "load_benchmark_list path_str commit branch_name pr [] = []"
| "load_benchmark_list path_str commit branch_name pr ((now, b) # rest) =
     (if \<not> get_default (r_benchmark_successful b) True
      then load_benchmark_list path_str commit branch_name pr rest
      else
        \<lparr>benchmark_name = get_default (r_benchmark_name b) ''unknown'',
         platform = platform_of_path path_str,
         execution_time_ns = get_default (r_avg_execution_time_ns b) 0,
         memory_usage = get_default (r_avg_memory_usage b) 0,
         quality_score = get_default (r_formant_preservation_score b) 0.0,
         timestamp = now,
         commit_hash = commit,
         branch = branch_name,
         pr_number = pr,
         environment_info = r_environment_info b\<rparr>
        # load_benchmark_list path_str commit branch_name pr rest)"

text \<open>\<open>load_benchmark_results\<close> over the files found, each with its path.\<close>

definition load_benchmark_results ::
  "string \<Rightarrow> string \<Rightarrow> int option \<Rightarrow> (string \<times> (datetime \<times> benchmark_result) list) list
     \<Rightarrow> PerformanceMetric list" where
  "load_benchmark_results commit branch_name pr files =
     concat (map (\<lambda>(path_str, bs). load_benchmark_list path_str commit branch_name pr bs) files)"

section \<open>update\_performance\_baseline.py\<close>



section \<open>regression\_detector.py\<close>

text \<open>
  The second detector. Its class and methods carry the names of the first one's, so
  the names that clash get the suffix \<open>_rd\<close>. A benchmark item is a JSON object, given
  as the list of its entries with distinct keys.
\<close>

type_synonym item = "(string \<times> json) list"

definition isdigit :: "string \<Rightarrow> bool" where
  "isdigit s \<longleftrightarrow> s \<noteq> [] \<and> list_all (\<lambda>c. 48 \<le> (of_char c :: nat) \<and> (of_char c :: nat) \<le> 57) s"

definition digits_to_nat :: "string \<Rightarrow> nat" where
  "digits_to_nat s = foldl (\<lambda>acc c. 10 * acc + ((of_char c :: nat) - 48)) 0 s"

text \<open>
  \<open>float(s)\<close> on the texts that reach it, which are made of ASCII digits and dots with
  at least one digit: at most one dot is accepted, anything else raises \<open>ValueError\<close>.
\<close>

definition float_of_str :: "string \<Rightarrow> error + real" where
  "float_of_str s =
     (let ip = takeWhile (\<lambda>c. c \<noteq> CHR ''.'') s;
          rest = dropWhile (\<lambda>c. c \<noteq> CHR ''.'') s
      in case rest of
           [] \<Rightarrow> if isdigit ip then Inr (real (digits_to_nat ip)) else Inl ValueError
         | dot # fp \<Rightarrow>
             if (ip = [] \<or> isdigit ip) \<and> (fp = [] \<or> isdigit fp) \<and> (ip \<noteq> [] \<or> fp \<noteq> [])
             then Inr (real (digits_to_nat ip) + real (digits_to_nat fp) / 10 ^ length fp)
             else Inl ValueError)"

text \<open>
  \<open>_safe_get_numeric\<close>. A JSON boolean is a Python \<open>bool\<close>, which is an \<open>int\<close>:
  \<open>float(True)\<close> is 1.
\<close>

fun safe_get_numeric :: "item \<Rightarrow> string list \<Rightarrow> error + real" where
  "safe_get_numeric data [] = Inr 0.0"
| "safe_get_numeric data (key # keys) =
     (case map_of data key of
        None \<Rightarrow> safe_get_numeric data keys
      | Some (JNum x) \<Rightarrow> Inr x
      | Some (JBool b) \<Rightarrow> Inr (if b then 1 else 0)
      | Some (JStr s) \<Rightarrow>
          if isdigit (filter (\<lambda>c. c \<noteq> CHR ''.'') s) then float_of_str s
          else safe_get_numeric data keys
      | Some JNull \<Rightarrow> safe_get_numeric data keys
      | Some (JArr xs) \<Rightarrow> safe_get_numeric data keys
      | Some (JObj kvs) \<Rightarrow> safe_get_numeric data keys)"

definition calculate_severity_rd :: "real \<Rightarrow> string" where
  "calculate_severity_rd percent_change =
     (let abs_change = \<bar>percent_change\<bar>
      in if abs_change > 50 then ''critical''
         else if abs_change > 30 then ''high''
         else if abs_change > 15 then ''medium''
         else ''low'')"

text \<open>Python's \<open>round(x, n)\<close>: to n decimals, a tie going to the even neighbour.\<close>

definition py_round :: "real \<Rightarrow> nat \<Rightarrow> real" where
  "py_round x n =
     (let y = x * 10 ^ n; f = \<lfloor>y\<rfloor>; d = y - of_int f
      in of_int (if d < 1 / 2 then f else if d > 1 / 2 then f + 1
                 else if even f then f else f + 1) / 10 ^ n)"

record regression_data =
  benchmark :: string
  rd_platform :: string
  baseline_time :: real
  current_time :: real
  regression_percent :: real
  sample_count_baseline :: nat
  sample_count_current :: nat
  rd_severity :: string

text \<open>The loop that extracts \<open>timing_data\<close> from the items of one benchmark.\<close>

fun extract_timing_data :: "item list \<Rightarrow> error + real list" where
  "extract_timing_data [] = Inr []"
| "extract_timing_data (it # items) =
     (case safe_get_numeric it [''avg_execution_time_ns'', ''avg_execution_time''] of
        Inl e \<Rightarrow> Inl e
      | Inr avg_time \<Rightarrow>
          (case extract_timing_data items of
             Inl e \<Rightarrow> Inl e
           | Inr ts \<Rightarrow> Inr (if avg_time > 0 then avg_time # ts else ts)))"

text \<open>
  The body of the loop of \<open>_analyze_platform_regressions\<close> for one entry of
  \<open>platform_data\<close>; \<open>regressions\<close> and \<open>improvements\<close> are the two lists built so far, and a
  \<open>continue\<close> returns them unchanged.
\<close>

definition analyze_benchmark ::
  "real \<Rightarrow> string \<Rightarrow> string \<Rightarrow> item list \<Rightarrow> regression_data list \<Rightarrow> regression_data list
     \<Rightarrow> error + (regression_data list \<times> regression_data list)" where
  "analyze_benchmark threshold plat name benchmark_data regressions improvements =
     (if length benchmark_data < 2 then Inr (regressions, improvements)
      else
        (case extract_timing_data benchmark_data of
          Inl e \<Rightarrow> Inl e
        | Inr timing_data \<Rightarrow>
            if length timing_data < 2 then Inr (regressions, improvements)
            else
              let mid_point = length timing_data div 2;
                  baseline_times =
                    (if mid_point > 0 then take mid_point timing_data else butlast timing_data);
                  current_times =
                    (if mid_point > 0 then drop mid_point timing_data
                     else drop (length timing_data - 1) timing_data)
              in (case mean baseline_times of
                   Inl e \<Rightarrow> Inl e
                 | Inr baseline_avg \<Rightarrow>
                     (case mean current_times of
                        Inl e \<Rightarrow> Inl e
                      | Inr current_avg \<Rightarrow>
                          if baseline_avg > 0 then
                            let percent_change =
                                  ((current_avg - baseline_avg) / baseline_avg) * 100
                            in if \<bar>percent_change\<bar> > threshold then
                                 let entry =
                                       \<lparr>benchmark = name,
                                        rd_platform = plat,
                                        baseline_time = py_round (baseline_avg / 1000000) 3,
                                        current_time = py_round (current_avg / 1000000) 3,
                                        regression_percent = py_round percent_change 2,
                                        sample_count_baseline = length baseline_times,
                                        sample_count_current = length current_times,
                                        rd_severity = calculate_severity_rd percent_change\<rparr>
                                 in if percent_change > 0
                                    then Inr (regressions @ [entry], improvements)
                                    else Inr (regressions, improvements @ [entry])
                               else Inr (regressions, improvements)
                          else Inr (regressions, improvements)))))"

fun analyze_platform_loop ::
  "real \<Rightarrow> string \<Rightarrow> (string \<times> item list) list \<Rightarrow> regression_data list \<Rightarrow> regression_data list
     \<Rightarrow> error + (regression_data list \<times> regression_data list)" where
  "analyze_platform_loop threshold plat [] regressions improvements =
     Inr (regressions, improvements)"
| "analyze_platform_loop threshold plat ((name, benchmark_data) # rest) regressions improvements =
     (case analyze_benchmark threshold plat name benchmark_data regressions improvements of
        Inl e \<Rightarrow> Inl e
      | Inr (regressions', improvements') \<Rightarrow>
          analyze_platform_loop threshold plat rest regressions' improvements')"

text \<open>
  \<open>_analyze_platform_regressions\<close>; \<open>platform_data\<close> is the dictionary of one platform,
  as the list of its entries in insertion order.
\<close>

definition analyze_platform_regressions ::
  "real \<Rightarrow> string \<Rightarrow> (string \<times> item list) list
     \<Rightarrow> error + (regression_data list \<times> regression_data list)" where
  "analyze_platform_regressions threshold plat platform_data =
     analyze_platform_loop threshold plat platform_data [] []"


section \<open>Sample data\<close>

text \<open>
  Concrete inputs for the examples below: a clock reading (2026-11-04T12:00:00), a
  metric of platform \<open>P\<close>, a database of \<open>main\<close> records taken one day before the
  reading, and an object of a benchmark file.
\<close>

definition sample_now :: datetime where
  "sample_now = 63929390400000000"

definition sample_metric :: "string \<Rightarrow> string \<Rightarrow> real \<Rightarrow> datetime \<Rightarrow> PerformanceMetric" where
  "sample_metric name br t ts =
     \<lparr>benchmark_name = name, platform = ''P'', execution_time_ns = t, memory_usage = 0,
      quality_score = 0, timestamp = ts, commit_hash = ''c0'', branch = br,
      pr_number = None, environment_info = None\<rparr>"

definition sample_db :: "(string \<times> real) list \<Rightarrow> database" where
  "sample_db rows =
     \<lparr>performance_metrics =
        map (\<lambda>(name, t). sample_metric name ''main'' t (sample_now - us_per_day)) rows,
      regression_alerts = []\<rparr>"

definition empty_db :: database where
  "empty_db = \<lparr>performance_metrics = [], regression_alerts = []\<rparr>"

definition sample_result :: "string \<Rightarrow> real option \<Rightarrow> benchmark_result" where
  "sample_result name t =
     \<lparr>r_benchmark_name = Some name, r_benchmark_successful = Some True,
      r_avg_execution_time_ns = t, r_avg_memory_usage = None,
      r_formant_preservation_score = None, r_environment_info = None\<rparr>"



text \<open>
  A database for the baseline query: a record older than 30 days, two records of the
  key inside the window, a record of another benchmark, and a record of a feature
  branch that is the newest of all.
\<close>

definition window_db :: database where
  "window_db =
     \<lparr>performance_metrics =
        [sample_metric ''A'' ''main'' 100 (sample_now - 40 * us_per_day),
         sample_metric ''A'' ''main'' 101 (sample_now - 2 * us_per_day),
         sample_metric ''B'' ''main'' 102 (sample_now - us_per_day),
         sample_metric ''A'' ''main'' 103 (sample_now - us_per_day),
         sample_metric ''A'' ''feature/x'' 104 (sample_now - 1)],
      regression_alerts = []\<rparr>"

text \<open>A record taken exactly 30 days before the clock reading, and one stamped a day after it.\<close>

definition edge_db :: database where
  "edge_db =
     \<lparr>performance_metrics =
        [sample_metric ''A'' ''main'' 100 (sample_now - 30 * us_per_day),
         sample_metric ''A'' ''main'' 101 (sample_now + us_per_day)],
      regression_alerts = []\<rparr>"



section \<open>Auxiliary facts\<close>

lemmas sample_defs =
  sample_now_def sample_metric_def sample_db_def empty_db_def sample_result_def

lemmas query_defs =
  get_baseline_metrics_def datetime_minus_days_def datetime_max_def us_per_day_def
  baseline_where_def order_by_timestamp_desc_def

lemmas analyze_defs =
  analyze_single_metric_def min_sample_size_def mean_def stdev_def calculate_severity_def Let_def

lemma datetime_minus_days_Inr:
  "datetime_minus_days now d = Inr c \<Longrightarrow> c = now - d * us_per_day"
  by (auto simp: datetime_minus_days_def Let_def split: if_splits)

text \<open>For the default of 30 days the cutoff exists at every clock reading after January of year 1.\<close>

lemma datetime_minus_days_default:
  assumes "30 * us_per_day \<le> now" and "now \<le> datetime_max"
  shows "datetime_minus_days now 30 = Inr (now - 30 * us_per_day)"
  using assms by (simp add: datetime_minus_days_def Let_def us_per_day_def)

lemma baseline_where_stored [simp]:
  "baseline_where name plat c (stored_metric m) = baseline_where name plat c m"
  by (simp add: baseline_where_def stored_metric_def)

lemma mset_order_by [simp]: "mset (order_by_timestamp_desc rows) = mset rows"
  by (simp add: order_by_timestamp_desc_def)

lemma set_order_by [simp]: "set (order_by_timestamp_desc rows) = set rows"
  by (simp add: order_by_timestamp_desc_def)

lemma newest_first_order_by:
  "sorted_wrt (\<lambda>a b. timestamp b \<le> timestamp a) (order_by_timestamp_desc rows)"
proof -
  have "sorted (map timestamp (sort_key timestamp rows))"
    by (rule sorted_sort_key)
  then have "sorted_wrt (\<lambda>a b. timestamp a \<le> timestamp b) (sort_key timestamp rows)"
    by (simp add: sorted_map)
  then show ?thesis
    by (simp add: order_by_timestamp_desc_def sorted_wrt_rev)
qed

lemma get_baseline_metrics_Inr:
  assumes "datetime_minus_days now d = Inr c"
  shows "get_baseline_metrics db now name plat d =
           Inr (order_by_timestamp_desc (filter (baseline_where name plat c) (performance_metrics db)))"
  using assms by (simp add: get_baseline_metrics_def)

lemma get_baseline_metrics_InrD:
  assumes "get_baseline_metrics db now name plat d = Inr bl"
  shows "datetime_minus_days now d = Inr (now - d * us_per_day) \<and>
         bl = order_by_timestamp_desc
                (filter (baseline_where name plat (now - d * us_per_day)) (performance_metrics db))"
proof (cases "datetime_minus_days now d")
  case (Inl e)
  with assms show ?thesis by (simp add: get_baseline_metrics_def)
next
  case (Inr c)
  then have "c = now - d * us_per_day" by (rule datetime_minus_days_Inr)
  with Inr assms show ?thesis by (simp add: get_baseline_metrics_def)
qed


section \<open>The severity policy\<close>

text \<open>
  Claim C1, as the code has it. \<open>_calculate_severity\<close> of
  \<open>performance_regression_detector.py\<close> maps a positive change percent \<open>x\<close> to its tier
  by the canonical thresholds: below 5 none, from 5 minor, from 15 moderate, from 25
  major, from 50 critical. The second detector is not covered: it has a scale of its
  own (see the counterexample).
\<close>

theorem calculate_severity_thresholds:
  assumes "0 < x"
  shows "calculate_severity x =
     (if x < 5 then NONE else if x < 15 then MINOR else if x < 25 then MODERATE
      else if x < 50 then MAJOR else CRITICAL)"
  using assms by (simp add: calculate_severity_def)

text \<open>
  The boundaries of the specification, for a baseline mean of 100: the change percents
  4.9, 5, 14.9, 15, 24.9, 25, 49.9 and 50.
\<close>

theorem calculate_severity_thresholds_witness:
  "calculate_severity 4.9 = NONE \<and> calculate_severity 5 = MINOR
   \<and> calculate_severity 14.9 = MINOR \<and> calculate_severity 15 = MODERATE
   \<and> calculate_severity 24.9 = MODERATE \<and> calculate_severity 25 = MAJOR
   \<and> calculate_severity 49.9 = MAJOR \<and> calculate_severity 50 = CRITICAL"
  using calculate_severity_thresholds [of "4.9"] calculate_severity_thresholds [of 5]
    calculate_severity_thresholds [of "14.9"] calculate_severity_thresholds [of 15]
    calculate_severity_thresholds [of "24.9"] calculate_severity_thresholds [of 25]
    calculate_severity_thresholds [of "49.9"] calculate_severity_thresholds [of 50]
  by simp

text \<open>
  C1 as stated fails: \<open>_calculate_severity\<close> of \<open>regression_detector.py\<close> classifies the
  same percent change on another scale. At 50 the first detector says critical and
  the second high; at 27 major and medium; at 3 none and low.
\<close>

theorem detectors_disagree_counterexample:
  "severity_value (calculate_severity 50) = ''critical'' \<and> calculate_severity_rd 50 = ''high''
   \<and> severity_value (calculate_severity 27) = ''major'' \<and> calculate_severity_rd 27 = ''medium''
   \<and> severity_value (calculate_severity 3) = ''none'' \<and> calculate_severity_rd 3 = ''low''"
  by (simp add: calculate_severity_def calculate_severity_rd_def)

section \<open>The analyzer\<close>






text \<open>
  Claim C4 does not hold of the code. The division by the baseline mean has no guard:
  a mean of zero raises \<open>ZeroDivisionError\<close>, which nothing catches, and the batch ends
  there. First, a first run on five results of one benchmark that lack
  \<open>avg_execution_time_ns\<close> (loaded as 0, stored, and then their own baseline). Second,
  a batch of two records: the first has a baseline mean of zero, and the second, which
  alone would raise a critical alert (third part), is never analysed.
\<close>

theorem zero_baseline_mean_aborts_batch:
  "snd (detector_main ttest empty_db sample_now clock
      (load_benchmark_results ''c1'' ''main'' None
         [(''results/Ubuntu_GCC/benchmark_results.json'',
           [(sample_now, sample_result ''A'' None), (sample_now, sample_result ''A'' None),
            (sample_now, sample_result ''A'' None), (sample_now, sample_result ''A'' None),
            (sample_now, sample_result ''A'' None)])]) ''c1'') = Inl ZeroDivisionError
   \<and> analyze_current_metrics ttest
      (sample_db [(''A'', 0), (''A'', 0), (''A'', 0), (''A'', 0), (''A'', 0),
                  (''B'', 100), (''B'', 100), (''B'', 100), (''B'', 100), (''B'', 100)])
      sample_now clock
      [sample_metric ''A'' ''main'' 5 sample_now, sample_metric ''B'' ''main'' 200 sample_now] ''c1''
    = (sample_db [(''A'', 0), (''A'', 0), (''A'', 0), (''A'', 0), (''A'', 0),
                  (''B'', 100), (''B'', 100), (''B'', 100), (''B'', 100), (''B'', 100)],
       Inl ZeroDivisionError)
   \<and> (\<exists>a. analyze_current_metrics ttest
      (sample_db [(''A'', 0), (''A'', 0), (''A'', 0), (''A'', 0), (''A'', 0),
                  (''B'', 100), (''B'', 100), (''B'', 100), (''B'', 100), (''B'', 100)])
      sample_now clock [sample_metric ''B'' ''main'' 200 sample_now] ''c1''
    = (store_alert (sample_db [(''A'', 0), (''A'', 0), (''A'', 0), (''A'', 0), (''A'', 0),
                  (''B'', 100), (''B'', 100), (''B'', 100), (''B'', 100), (''B'', 100)]) clock a,
       Inr [a]) \<and> severity a = CRITICAL)"
  by (simp add: detector_main_def load_benchmark_results_def get_default_def platform_of_path_def
      store_metrics_def stored_metric_def analyze_current_metrics_def
      sample_defs query_defs analyze_defs)

section \<open>The baseline set\<close>

text \<open>
  Claim C5, as the code has it. \<open>main\<close> stores the batch and analyses it afterwards
  (\<open>detector_main\<close>), so the baseline of a record \<open>m\<close> is queried on
  \<open>store_metrics db batch\<close>. Every record of that baseline is a stored \<open>main\<close> record
  of the key of \<open>m\<close>, taken later than 30 days before the clock reading, and comes
  from the database or from the batch itself; and every \<open>main\<close> record of the batch
  with that key and inside the window is part of the baseline, \<open>m\<close> included.
\<close>

theorem baseline_set_contents:
  assumes "get_baseline_metrics (store_metrics db batch) now (benchmark_name m) (platform m) 30 = Inr bl"
  shows "(\<forall>b \<in> set bl. branch b = ''main'' \<and> benchmark_name b = benchmark_name m
             \<and> platform b = platform m \<and> now - 30 * us_per_day < timestamp b
             \<and> b \<in> set (performance_metrics db) \<union> stored_metric ` set batch)
       \<and> (\<forall>c \<in> set batch. branch c = ''main'' \<and> benchmark_name c = benchmark_name m
             \<and> platform c = platform m \<and> now - 30 * us_per_day < timestamp c
             \<longrightarrow> stored_metric c \<in> set bl)"
proof -
  from get_baseline_metrics_InrD[OF assms]
  have bl: "bl = order_by_timestamp_desc
                (filter (baseline_where (benchmark_name m) (platform m) (now - 30 * us_per_day))
                   (performance_metrics (store_metrics db batch)))"
    by simp
  show ?thesis
    unfolding bl by (auto simp: baseline_where_def store_metrics_def stored_metric_def)
qed

text \<open>
  A current record of benchmark A against a database with one record of A and one of
  B: its baseline is the current record itself and the older record of A.
\<close>

theorem baseline_set_contents_witness:
  "get_baseline_metrics
     (store_metrics (sample_db [(''A'', 100), (''B'', 100)])
        [sample_metric ''A'' ''main'' 300 (sample_now - 1)])
     sample_now ''A'' ''P'' 30
   = Inr [sample_metric ''A'' ''main'' 300 (sample_now - 1),
          sample_metric ''A'' ''main'' 100 (sample_now - us_per_day)]
   \<and> stored_metric (sample_metric ''A'' ''main'' 300 (sample_now - 1))
      \<in> set [sample_metric ''A'' ''main'' 300 (sample_now - 1),
              sample_metric ''A'' ''main'' 100 (sample_now - us_per_day)]
   \<and> list_all (\<lambda>b. branch b = ''main'' \<and> benchmark_name b = ''A'' \<and> platform b = ''P''
                   \<and> sample_now - 30 * us_per_day < timestamp b)
        [sample_metric ''A'' ''main'' 300 (sample_now - 1),
         sample_metric ''A'' ''main'' 100 (sample_now - us_per_day)]"
proof -
  let ?cur = "sample_metric ''A'' ''main'' 300 (sample_now - 1)"
  let ?db = "sample_db [(''A'', 100), (''B'', 100)]"
  let ?bl = "[?cur, sample_metric ''A'' ''main'' 100 (sample_now - us_per_day)]"
  have q: "get_baseline_metrics (store_metrics ?db [?cur]) sample_now
             (benchmark_name ?cur) (platform ?cur) 30 = Inr ?bl"
    by (simp add: store_metrics_def stored_metric_def sample_defs query_defs)
  have q': "get_baseline_metrics (store_metrics ?db [?cur]) sample_now ''A'' ''P'' 30 = Inr ?bl"
    using q by (simp add: sample_metric_def)
  have cur: "branch ?cur = ''main'' \<and> benchmark_name ?cur = benchmark_name ?cur
             \<and> platform ?cur = platform ?cur \<and> sample_now - 30 * us_per_day < timestamp ?cur"
    by (simp add: sample_defs us_per_day_def)
  note contents = baseline_set_contents [OF q]
  have old: "\<forall>b \<in> set ?bl. branch b = ''main'' \<and> benchmark_name b = benchmark_name ?cur
             \<and> platform b = platform ?cur \<and> sample_now - 30 * us_per_day < timestamp b
             \<and> b \<in> set (performance_metrics ?db) \<union> stored_metric ` set [?cur]"
    by (rule conjunct1 [OF contents])
  have new: "\<forall>c \<in> set [?cur]. branch c = ''main'' \<and> benchmark_name c = benchmark_name ?cur
             \<and> platform c = platform ?cur \<and> sample_now - 30 * us_per_day < timestamp c
             \<longrightarrow> stored_metric c \<in> set ?bl"
    by (rule conjunct2 [OF contents])
  from new cur have 1: "stored_metric ?cur \<in> set ?bl"
    by simp
  from old have 2: "list_all (\<lambda>b. branch b = ''main'' \<and> benchmark_name b = benchmark_name ?cur
             \<and> platform b = platform ?cur \<and> sample_now - 30 * us_per_day < timestamp b) ?bl"
    unfolding list_all_iff by fast
  have 3: "benchmark_name ?cur = ''A''" "platform ?cur = ''P''"
    by (simp_all add: sample_metric_def)
  from q' 1 2 show ?thesis
    unfolding 3 by (intro conjI)
qed

text \<open>
  C5 as stated fails: the current record is in its own baseline. With four earlier
  records of 100 and a current record of 300 the baseline has five records, the
  sample-size gate opens, and the alert reports a baseline mean of 140, which is the
  mean of the four and the current record.
\<close>

theorem baseline_holds_current_record_counterexample:
  "\<forall>ttest clock. \<exists>a db'.
     get_baseline_metrics
       (store_metrics (sample_db [(''A'', 100), (''A'', 100), (''A'', 100), (''A'', 100)])
          [sample_metric ''A'' ''main'' 300 (sample_now - 1)])
       sample_now ''A'' ''P'' 30
     = Inr (sample_metric ''A'' ''main'' 300 (sample_now - 1)
            # performance_metrics (sample_db [(''A'', 100), (''A'', 100), (''A'', 100), (''A'', 100)]))
     \<and> detector_main ttest (sample_db [(''A'', 100), (''A'', 100), (''A'', 100), (''A'', 100)])
          sample_now clock [sample_metric ''A'' ''main'' 300 (sample_now - 1)] ''c1'' = (db', Inr [a])
     \<and> baseline_value a = 140"
  by (simp add: detector_main_def store_metrics_def stored_metric_def
      analyze_current_metrics_def sample_defs query_defs analyze_defs store_alert_def)

text \<open>
  Claim C6, as the code has it. When the cutoff \<open>now - days_back\<close> is a datetime, the
  query returns without error exactly the stored \<open>main\<close> records of the key whose
  timestamp is later than the cutoff (the cutoff itself excluded, and no upper
  bound), newest first; a record of branch \<open>feature/x\<close> is never among them.
\<close>

theorem get_baseline_metrics_window:
  assumes "datetime_minus_days now days_back = Inr cutoff"
  shows "\<exists>bl. get_baseline_metrics db now name plat days_back = Inr bl
          \<and> cutoff = now - days_back * us_per_day
          \<and> mset bl = {#m \<in># mset (performance_metrics db).
                          benchmark_name m = name \<and> platform m = plat
                          \<and> branch m = ''main'' \<and> cutoff < timestamp m#}
          \<and> sorted_wrt (\<lambda>a b. timestamp b \<le> timestamp a) bl
          \<and> (\<forall>m \<in> set bl. branch m \<noteq> ''feature/x'')"
proof -
  let ?bl = "order_by_timestamp_desc
               (filter (baseline_where name plat cutoff) (performance_metrics db))"
  have 1: "get_baseline_metrics db now name plat days_back = Inr ?bl"
    using assms by (rule get_baseline_metrics_Inr)
  have 2: "cutoff = now - days_back * us_per_day"
    using assms by (rule datetime_minus_days_Inr)
  have 3: "mset ?bl = {#m \<in># mset (performance_metrics db).
                          benchmark_name m = name \<and> platform m = plat
                          \<and> branch m = ''main'' \<and> cutoff < timestamp m#}"
    by (simp add: baseline_where_def conj_ac cong: conj_cong)
  have 4: "sorted_wrt (\<lambda>a b. timestamp b \<le> timestamp a) ?bl"
    by (rule newest_first_order_by)
  have 5: "\<forall>m \<in> set ?bl. branch m \<noteq> ''feature/x''"
    by (simp add: baseline_where_def)
  from 1 2 3 4 5 show ?thesis by blast
qed

text \<open>
  On \<open>window_db\<close> the query for benchmark A returns the two \<open>main\<close> records inside the
  window, newest first, not the feature-branch record; for a benchmark without records
  it returns the empty list.
\<close>

theorem get_baseline_metrics_window_witness:
  "datetime_minus_days sample_now 30 = Inr (sample_now - 30 * us_per_day)
   \<and> get_baseline_metrics window_db sample_now ''A'' ''P'' 30
       = Inr [sample_metric ''A'' ''main'' 103 (sample_now - us_per_day),
              sample_metric ''A'' ''main'' 101 (sample_now - 2 * us_per_day)]
   \<and> get_baseline_metrics window_db sample_now ''C'' ''P'' 30 = Inr []"
proof -
  have c: "datetime_minus_days sample_now 30 = Inr (sample_now - 30 * us_per_day)"
    by (simp add: sample_defs query_defs)
  from get_baseline_metrics_window [OF c, of window_db "''C''" "''P''"]
  obtain bl where "get_baseline_metrics window_db sample_now ''C'' ''P'' 30 = Inr bl"
    and "mset bl = {#m \<in># mset (performance_metrics window_db).
                          benchmark_name m = ''C'' \<and> platform m = ''P''
                          \<and> branch m = ''main'' \<and> sample_now - 30 * us_per_day < timestamp m#}"
    by blast
  then have e: "get_baseline_metrics window_db sample_now ''C'' ''P'' 30 = Inr []"
    by (simp add: window_db_def sample_defs)
  have a: "get_baseline_metrics window_db sample_now ''A'' ''P'' 30
       = Inr [sample_metric ''A'' ''main'' 103 (sample_now - us_per_day),
              sample_metric ''A'' ''main'' 101 (sample_now - 2 * us_per_day)]"
    by (simp add: window_db_def sample_defs query_defs)
  from c a e show ?thesis by blast
qed

text \<open>
  C6 as stated fails at both ends of the window. The record taken exactly 30 days
  before the reference time lies in \<open>[referenceTime - lookbackWindow, referenceTime)\<close>
  and is not returned; the record stamped a day after the reference time lies outside
  and is returned.
\<close>

theorem get_baseline_metrics_window_counterexample:
  "get_baseline_metrics edge_db sample_now ''A'' ''P'' 30
     = Inr [sample_metric ''A'' ''main'' 101 (sample_now + us_per_day)]
   \<and> sample_now - 30 * us_per_day \<le> timestamp (sample_metric ''A'' ''main'' 100 (sample_now - 30 * us_per_day))
   \<and> timestamp (sample_metric ''A'' ''main'' 100 (sample_now - 30 * us_per_day)) < sample_now
   \<and> \<not> timestamp (sample_metric ''A'' ''main'' 101 (sample_now + us_per_day)) < sample_now"
  by (simp add: edge_db_def sample_defs query_defs)

section \<open>Insertion\<close>

text \<open>
  Claim C7. After the same batch is stored twice, the baseline query returns what it
  returned before together with two copies of every record of the batch that matches
  the query; no row is dropped, the table grows by twice the length of the batch.
\<close>

theorem duplicate_insertion_kept:
  assumes "get_baseline_metrics db now name plat days_back = Inr bl0"
  shows "\<exists>bl. get_baseline_metrics (store_metrics (store_metrics db batch) batch) now name plat days_back = Inr bl
     \<and> mset bl = mset bl0
          + {#r \<in># mset (map stored_metric batch). baseline_where name plat (now - days_back * us_per_day) r#}
          + {#r \<in># mset (map stored_metric batch). baseline_where name plat (now - days_back * us_per_day) r#}
     \<and> (\<forall>m \<in> set batch. baseline_where name plat (now - days_back * us_per_day) m
            \<longrightarrow> 2 \<le> count (mset bl) (stored_metric m))
     \<and> length (performance_metrics (store_metrics (store_metrics db batch) batch))
          = length (performance_metrics db) + 2 * length batch"
proof -
  let ?c = "now - days_back * us_per_day"
  let ?P = "baseline_where name plat ?c"
  let ?db2 = "store_metrics (store_metrics db batch) batch"
  let ?bl = "order_by_timestamp_desc (filter ?P (performance_metrics ?db2))"
  let ?new = "{#r \<in># mset (map stored_metric batch). ?P r#}"
  from get_baseline_metrics_InrD[OF assms]
  have c: "datetime_minus_days now days_back = Inr ?c"
    and bl0: "bl0 = order_by_timestamp_desc (filter ?P (performance_metrics db))"
    by simp_all
  have 1: "get_baseline_metrics ?db2 now name plat days_back = Inr ?bl"
    using c by (rule get_baseline_metrics_Inr)
  have 2: "mset ?bl = mset bl0 + ?new + ?new"
    unfolding bl0 by (simp add: store_metrics_def)
  have 3: "\<forall>m \<in> set batch. ?P m \<longrightarrow> 2 \<le> count (mset ?bl) (stored_metric m)"
  proof (intro ballI impI)
    fix m assume m: "m \<in> set batch" and P: "?P m"
    then have "stored_metric m \<in># ?new" by simp
    then have "1 \<le> count ?new (stored_metric m)"
      by (simp only: count_greater_eq_one_iff)
    moreover have "count (mset ?bl) (stored_metric m) =
        count (mset bl0) (stored_metric m) + count ?new (stored_metric m) + count ?new (stored_metric m)"
      by (simp only: 2 count_union)
    ultimately show "2 \<le> count (mset ?bl) (stored_metric m)"
      by linarith
  qed
  have 4: "length (performance_metrics ?db2) = length (performance_metrics db) + 2 * length batch"
    by (simp add: store_metrics_def)
  from 1 2 3 4 show ?thesis by blast
qed

text \<open>
  One record stored twice in an empty database: the query returns it twice.
\<close>

theorem duplicate_insertion_kept_witness:
  "get_baseline_metrics empty_db sample_now ''A'' ''P'' 30 = Inr []
   \<and> get_baseline_metrics
       (store_metrics (store_metrics empty_db [sample_metric ''A'' ''main'' 100 (sample_now - 1)])
          [sample_metric ''A'' ''main'' 100 (sample_now - 1)])
       sample_now ''A'' ''P'' 30
     = Inr [sample_metric ''A'' ''main'' 100 (sample_now - 1),
            sample_metric ''A'' ''main'' 100 (sample_now - 1)]
   \<and> 2 \<le> count (mset [sample_metric ''A'' ''main'' 100 (sample_now - 1),
                          sample_metric ''A'' ''main'' 100 (sample_now - 1)])
               (sample_metric ''A'' ''main'' 100 (sample_now - 1))"
proof -
  let ?m = "sample_metric ''A'' ''main'' 100 (sample_now - 1)"
  have q0: "get_baseline_metrics empty_db sample_now ''A'' ''P'' 30 = Inr []"
    by (simp add: sample_defs query_defs)
  have q2: "get_baseline_metrics (store_metrics (store_metrics empty_db [?m]) [?m])
              sample_now ''A'' ''P'' 30 = Inr [?m, ?m]"
    by (simp add: store_metrics_def stored_metric_def sample_defs query_defs)
  have P: "baseline_where ''A'' ''P'' (sample_now - 30 * us_per_day) ?m"
    by (simp add: sample_defs query_defs)
  have sm: "stored_metric ?m = ?m"
    by (simp add: stored_metric_def sample_defs)
  from duplicate_insertion_kept [OF q0, of "[?m]"]
  obtain bl where q: "get_baseline_metrics (store_metrics (store_metrics empty_db [?m]) [?m])
                        sample_now ''A'' ''P'' 30 = Inr bl"
    and cnt: "\<forall>m \<in> set [?m]. baseline_where ''A'' ''P'' (sample_now - 30 * us_per_day) m
                \<longrightarrow> 2 \<le> count (mset bl) (stored_metric m)"
    by blast
  from q q2 have bl: "bl = [?m, ?m]" by simp
  from cnt P have "2 \<le> count (mset bl) (stored_metric ?m)" by simp
  then have "2 \<le> count (mset [?m, ?m]) ?m"
    by (simp only: bl sm)
  with q0 q2 show ?thesis by blast
qed

text \<open>
  Claim C9 does not hold of the code. \<open>load_benchmark_results\<close> converts every object
  of a file whatever its execution time, a missing time becoming 0, and \<open>store_metrics\<close>
  inserts what it is given: the times 0, -5 and the missing one are all in the table.
\<close>

theorem nonpositive_time_is_persisted:
  "map execution_time_ns (performance_metrics (store_metrics empty_db
      (load_benchmark_results ''c1'' ''main'' None
         [(''results/Ubuntu_GCC/benchmark_results.json'',
           [(sample_now, sample_result ''A'' (Some 0)), (sample_now, sample_result ''B'' (Some (-5))),
            (sample_now, sample_result ''C'' None), (sample_now, sample_result ''D'' (Some 7))])])))
    = [0, -5, 0, 7]"
  by (simp add: load_benchmark_results_def get_default_def platform_of_path_def
      store_metrics_def stored_metric_def sample_defs)

section \<open>Retention\<close>




section \<open>The split-sample detector\<close>







end
